theory Spec2Isabelle
  imports Main "HOL-Library.Word"
begin

section \<open>Python values used by main.py\<close>

text \<open>
  Python strings are character lists, byte strings are lists of 8-bit words and Python's
  unbounded integers are \<^typ>\<open>int\<close>. A value of type \<open>str | None\<close> is a
  \<^typ>\<open>string option\<close>.
\<close>

type_synonym bytes = "8 word list"

text \<open>Truthiness of a \<open>str | None\<close>: \<open>None\<close> and the empty string are falsy.\<close>

fun truthy :: "string option \<Rightarrow> bool" where
  "truthy None = False"
| "truthy (Some s) = (s \<noteq> [])"

text \<open>\<open>s.startswith(p)\<close>.\<close>

definition startswith :: "string \<Rightarrow> string \<Rightarrow> bool" where
  "startswith s p = (take (length p) s = p)"

text \<open>What an f-string prints for a \<open>str | None\<close>: the string itself, or \<open>None\<close>.\<close>

fun format_value :: "string option \<Rightarrow> string" where
  "format_value None = ''None''"
| "format_value (Some s) = s"

text \<open>\<open>x or d\<close> for a \<open>str | None\<close> \<open>x\<close> and a string \<open>d\<close>.\<close>

fun or_else :: "string option \<Rightarrow> string \<Rightarrow> string" where
  "or_else None d = d"
| "or_else (Some s) d = (if s = [] then d else s)"

section \<open>Exceptions and responses\<close>

text \<open>
  The \<open>except\<close> clauses of the handler tell exceptions apart by class, so the model
  keeps the class of whatever is raised:
  \<^item> \<open>HTTPException(status_code, detail)\<close>, which the framework turns into an error
    response with that status and a JSON body carrying \<open>detail\<close>;
  \<^item> any other instance of \<open>Exception\<close>, of which the handler uses only \<open>str(e)\<close>;
  \<^item> a \<open>BaseException\<close> that is not an \<open>Exception\<close> (\<open>KeyboardInterrupt\<close>,
    \<open>SystemExit\<close>, a cancellation), which \<open>except Exception\<close> does not catch.
\<close>

datatype py_exception =
    HTTPException nat string
  | Other_exception string
  | Base_exception string

text \<open>\<open>Response(content, media_type, headers)\<close>; its status is 200.\<close>

record response =
  content :: bytes
  media_type :: string
  headers :: "(string \<times> string) list"

section \<open>Authentication dependency\<close>

text \<open>
  \<open>verify_api_key\<close>, lines 43 to 63. The first argument is the module-level
  \<open>API_KEY = os.getenv("X_API_KEY")\<close>, the second the value bound from the
  \<open>X-API-Key\<close> header (\<open>None\<close> when the header is absent).
\<close>

definition verify_api_key :: "string option \<Rightarrow> string option \<Rightarrow> py_exception + bool" where
  "verify_api_key API_KEY x_api_key =
     (if \<not> truthy API_KEY then Inr True
      else if \<not> truthy x_api_key then Inl (HTTPException 401 ''X-API-Key header is required'')
      else if x_api_key \<noteq> API_KEY then Inl (HTTPException 401 ''Invalid API key'')
      else Inr True)"

section \<open>The rembg collaborator\<close>

text \<open>
  The handler imports \<open>remove\<close> and \<open>new_session\<close> from rembg at call time. The
  library is a parameter of the model: whether the import succeeds, and what each of its
  two functions does on its arguments, namely return a value (\<open>Inr\<close>) or raise an
  exception of any class (\<open>Inl\<close>). The spec treats the library as a pure function of
  its arguments, and so does the model.

  The keyword arguments of a \<open>remove\<close> call are either none beyond the session, or the
  four alpha-matting arguments.
\<close>

datatype remove_kwargs =
    Session_only
  | With_matting bool int int int

record 's rembg =
  importable :: bool
  rembg_new_session :: "string \<Rightarrow> py_exception + 's"
  rembg_remove :: "bytes \<Rightarrow> 's \<Rightarrow> remove_kwargs \<Rightarrow> py_exception + bytes"

text \<open>The calls made to the collaborator, in order, are recorded in a trace.\<close>

datatype 's collab_call =
    New_session_call string
  | Remove_call bytes 's remove_kwargs

section \<open>The handlers\<close>

text \<open>An \<open>UploadFile\<close>: its name, its declared content type and what \<open>read()\<close> returns.\<close>

record upload_file =
  filename :: "string option"
  content_type :: "string option"
  file_bytes :: bytes

text \<open>
  The body of the \<open>try\<close> block of \<open>remove_background\<close>, lines 103 to 147. Python's
  \<open>a or b\<close> evaluates \<open>b\<close> only when \<open>a\<close> is falsy, which the inner conditional of
  the file-type check writes out. An exception raised by \<open>new_session\<close> or
  \<open>remove\<close> leaves the block as it is, with its class. The two log lines have no
  part in the result and are left out.
\<close>

definition remove_background_try ::
  "'s rembg \<Rightarrow> upload_file \<Rightarrow> string \<Rightarrow> bool \<Rightarrow> int \<Rightarrow> int \<Rightarrow> int
     \<Rightarrow> (py_exception + response) \<times> 's collab_call list" where
  "remove_background_try rb file model alpha_matting
       alpha_matting_foreground_threshold alpha_matting_background_threshold
       alpha_matting_erode_size =
     (if (if \<not> truthy (content_type file) then True
          else \<not> startswith (the (content_type file)) ''image/'')
      then (Inl (HTTPException 400 ''File must be an image''), [])
      else
        let file_content = file_bytes file in
        if \<not> importable rb
        then (Inl (HTTPException 500
                ''rembg not installed. Please install with: pip install rembg''), [])
        else
          case rembg_new_session rb model of
            Inl e \<Rightarrow> (Inl e, [New_session_call model])
          | Inr session \<Rightarrow>
              let kwargs =
                (if alpha_matting
                 then With_matting alpha_matting alpha_matting_foreground_threshold
                        alpha_matting_background_threshold alpha_matting_erode_size
                 else Session_only)
              in
              (case rembg_remove rb file_content session kwargs of
                Inl e \<Rightarrow>
                  (Inl e,
                   [New_session_call model, Remove_call file_content session kwargs])
              | Inr output \<Rightarrow>
                  (Inr \<lparr> content = output,
                         media_type = ''image/png'',
                         headers =
                           [(''Content-Disposition'',
                               ''attachment; filename=bg_removed_'' @ format_value (filename file)),
                            (''X-Original-Filename'', or_else (filename file) ''image''),
                            (''X-Model-Used'', model)] \<rparr>,
                   [New_session_call model, Remove_call file_content session kwargs])))"

text \<open>
  The two \<open>except\<close> clauses, lines 149 to 153: an \<open>HTTPException\<close> is raised again
  as it is, whoever raised it; any other \<open>Exception\<close> becomes a 500 with its text;
  what is not an \<open>Exception\<close> is caught by neither clause and leaves the handler.
\<close>

fun except_clauses :: "py_exception + response \<Rightarrow> py_exception + response" where
  "except_clauses (Inl (HTTPException c d)) = Inl (HTTPException c d)"
| "except_clauses (Inl (Other_exception e)) =
     Inl (HTTPException 500 (''Error processing image: '' @ e))"
| "except_clauses (Inl (Base_exception b)) = Inl (Base_exception b)"
| "except_clauses (Inr r) = Inr r"

text \<open>\<open>remove_background\<close>, the handler of \<open>POST /bg/remove\<close>.\<close>

definition remove_background ::
  "'s rembg \<Rightarrow> upload_file \<Rightarrow> string \<Rightarrow> bool \<Rightarrow> int \<Rightarrow> int \<Rightarrow> int
     \<Rightarrow> (py_exception + response) \<times> 's collab_call list" where
  "remove_background rb file model alpha_matting
       alpha_matting_foreground_threshold alpha_matting_background_threshold
       alpha_matting_erode_size =
     (case remove_background_try rb file model alpha_matting
             alpha_matting_foreground_threshold alpha_matting_background_threshold
             alpha_matting_erode_size of
        (res, calls) \<Rightarrow> (except_clauses res, calls))"

text \<open>
  \<open>remove_background_advanced\<close>, the handler of \<open>POST /bg/remove-advanced\<close>, lines 156
  to 175: it awaits \<open>remove_background\<close> on its own six arguments.
\<close>

definition remove_background_advanced ::
  "'s rembg \<Rightarrow> upload_file \<Rightarrow> string \<Rightarrow> bool \<Rightarrow> int \<Rightarrow> int \<Rightarrow> int
     \<Rightarrow> (py_exception + response) \<times> 's collab_call list" where
  "remove_background_advanced rb file model alpha_matting
       alpha_matting_foreground_threshold alpha_matting_background_threshold
       alpha_matting_erode_size =
     remove_background rb file model alpha_matting
       alpha_matting_foreground_threshold alpha_matting_background_threshold
       alpha_matting_erode_size"

section \<open>The two endpoints\<close>

text \<open>
  A request to either endpoint, after the framework has parsed it: the \<open>X-API-Key\<close>
  header, the uploaded file, and the five optional parameters, each \<open>None\<close> when the
  request omits it. (A request without the file part is answered 422 by the framework and
  never reaches the handler.)
\<close>

record bg_request =
  x_api_key :: "string option"
  file_part :: upload_file
  model :: "string option"
  alpha_matting :: "bool option"
  alpha_matting_foreground_threshold :: "int option"
  alpha_matting_background_threshold :: "int option"
  alpha_matting_erode_size :: "int option"

text \<open>The defaults of the handler's signature, lines 84 to 88 and 158 to 162.\<close>

definition bound_model :: "bg_request \<Rightarrow> string" where
  "bound_model req = (case model req of None \<Rightarrow> ''u2net'' | Some m \<Rightarrow> m)"

definition bound_alpha_matting :: "bg_request \<Rightarrow> bool" where
  "bound_alpha_matting req = (case alpha_matting req of None \<Rightarrow> False | Some b \<Rightarrow> b)"

definition bound_foreground_threshold :: "bg_request \<Rightarrow> int" where
  "bound_foreground_threshold req =
     (case alpha_matting_foreground_threshold req of None \<Rightarrow> 240 | Some n \<Rightarrow> n)"

definition bound_background_threshold :: "bg_request \<Rightarrow> int" where
  "bound_background_threshold req =
     (case alpha_matting_background_threshold req of None \<Rightarrow> 10 | Some n \<Rightarrow> n)"

definition bound_erode_size :: "bg_request \<Rightarrow> int" where
  "bound_erode_size req =
     (case alpha_matting_erode_size req of None \<Rightarrow> 10 | Some n \<Rightarrow> n)"

text \<open>
  An endpoint resolves its dependency \<open>Depends(verify_api_key)\<close> first; when the
  dependency raises, the handler does not run. Otherwise the handler runs on the bound
  parameters.
\<close>

definition post_bg_remove ::
  "string option \<Rightarrow> 's rembg \<Rightarrow> bg_request
     \<Rightarrow> (py_exception + response) \<times> 's collab_call list" where
  "post_bg_remove API_KEY rb req =
     (case verify_api_key API_KEY (x_api_key req) of
        Inl h \<Rightarrow> (Inl h, [])
      | Inr _ \<Rightarrow>
          remove_background rb (file_part req) (bound_model req) (bound_alpha_matting req)
            (bound_foreground_threshold req) (bound_background_threshold req)
            (bound_erode_size req))"

definition post_bg_remove_advanced ::
  "string option \<Rightarrow> 's rembg \<Rightarrow> bg_request
     \<Rightarrow> (py_exception + response) \<times> 's collab_call list" where
  "post_bg_remove_advanced API_KEY rb req =
     (case verify_api_key API_KEY (x_api_key req) of
        Inl h \<Rightarrow> (Inl h, [])
      | Inr _ \<Rightarrow>
          remove_background_advanced rb (file_part req) (bound_model req) (bound_alpha_matting req)
            (bound_foreground_threshold req) (bound_background_threshold req)
            (bound_erode_size req))"


section \<open>Vocabulary of the properties\<close>

text \<open>A secret is configured when \<open>API_KEY\<close> is a non-empty string.\<close>

definition secret_configured :: "string option \<Rightarrow> bool" where
  "secret_configured API_KEY = (case API_KEY of None \<Rightarrow> False | Some k \<Rightarrow> k \<noteq> [])"

text \<open>The header is absent or empty.\<close>

definition header_missing :: "string option \<Rightarrow> bool" where
  "header_missing x = (x = None \<or> x = Some [])"

text \<open>The dependency allows the request.\<close>

definition allowed :: "py_exception + bool \<Rightarrow> bool" where
  "allowed r = (r = Inr True)"

text \<open>The upload declares a content type that starts with \<open>image/\<close>.\<close>

definition declared_image :: "upload_file \<Rightarrow> bool" where
  "declared_image f = (case content_type f of None \<Rightarrow> False | Some c \<Rightarrow> startswith c ''image/'')"

text \<open>A header of a successful response; an error response has none of them.\<close>

definition response_header :: "py_exception + response \<Rightarrow> string \<Rightarrow> string option" where
  "response_header res name = (case res of Inl h \<Rightarrow> None | Inr r \<Rightarrow> map_of (headers r) name)"

text \<open>
  Some \<open>remove\<close> call of a trace carries the three numeric values as its keyword
  arguments.
\<close>

fun carries_numeric :: "remove_kwargs \<Rightarrow> int \<Rightarrow> int \<Rightarrow> int \<Rightarrow> bool" where
  "carries_numeric Session_only f b e = False"
| "carries_numeric (With_matting a f' b' e') f b e = (f' = f \<and> b' = b \<and> e' = e)"

fun numeric_forwarded :: "'s collab_call list \<Rightarrow> int \<Rightarrow> int \<Rightarrow> int \<Rightarrow> bool" where
  "numeric_forwarded [] f b e = False"
| "numeric_forwarded (New_session_call m # cs) f b e = numeric_forwarded cs f b e"
| "numeric_forwarded (Remove_call c s kw # cs) f b e =
     (if carries_numeric kw f b e then True else numeric_forwarded cs f b e)"

text \<open>Some call of a trace, made again on the collaborator, raises the exception \<open>e\<close>.\<close>

fun call_raises :: "'s rembg \<Rightarrow> 's collab_call \<Rightarrow> py_exception \<Rightarrow> bool" where
  "call_raises rb (New_session_call m) e = (rembg_new_session rb m = Inl e)"
| "call_raises rb (Remove_call c s kw) e = (rembg_remove rb c s kw = Inl e)"

fun raised_in :: "'s rembg \<Rightarrow> 's collab_call list \<Rightarrow> py_exception \<Rightarrow> bool" where
  "raised_in rb [] e = False"
| "raised_in rb (c # cs) e = (if call_raises rb c e then True else raised_in rb cs e)"

text \<open>The answer is a 500 whose detail starts with \<open>Error processing image\<close>.\<close>

fun answered_500_error_processing :: "py_exception + response \<Rightarrow> bool" where
  "answered_500_error_processing (Inl (HTTPException c d)) =
     (if c = 500 then startswith d ''Error processing image'' else False)"
| "answered_500_error_processing (Inl (Other_exception e)) = False"
| "answered_500_error_processing (Inl (Base_exception b)) = False"
| "answered_500_error_processing (Inr r) = False"

text \<open>How often each of the two collaborator functions is called in a trace.\<close>

fun count_new_session :: "'s collab_call list \<Rightarrow> nat" where
  "count_new_session [] = 0"
| "count_new_session (New_session_call m # cs) = Suc (count_new_session cs)"
| "count_new_session (Remove_call c s kw # cs) = count_new_session cs"

fun count_remove :: "'s collab_call list \<Rightarrow> nat" where
  "count_remove [] = 0"
| "count_remove (New_session_call m # cs) = count_remove cs"
| "count_remove (Remove_call c s kw # cs) = Suc (count_remove cs)"

subsection \<open>Sample inputs\<close>

text \<open>
  A collaborator in the manner of the tests' mock: sessions are model names and
  \<open>remove\<close> returns fixed bytes. A second one whose \<open>remove\<close> raises
  \<open>Exception("Processing failed")\<close>, as in \<open>test_remove_background_processing_error\<close>.
\<close>

definition mock_rembg :: "string rembg" where
  "mock_rembg = \<lparr> importable = True,
                   rembg_new_session = (\<lambda>m. Inr m),
                   rembg_remove = (\<lambda>c s kw. Inr [1, 2, 3]) \<rparr>"

definition failing_rembg :: "string rembg" where
  "failing_rembg = \<lparr> importable = True,
                      rembg_new_session = (\<lambda>m. Inr m),
                      rembg_remove = (\<lambda>c s kw. Inl (Other_exception ''Processing failed'')) \<rparr>"

text \<open>
  Two more, whose \<open>remove\<close> raises \<open>HTTPException(418, "teapot")\<close> and
  \<open>KeyboardInterrupt("stop")\<close>.
\<close>

definition teapot_rembg :: "string rembg" where
  "teapot_rembg = \<lparr> importable = True,
                     rembg_new_session = (\<lambda>m. Inr m),
                     rembg_remove = (\<lambda>c s kw. Inl (HTTPException 418 ''teapot'')) \<rparr>"

definition interrupted_rembg :: "string rembg" where
  "interrupted_rembg = \<lparr> importable = True,
                          rembg_new_session = (\<lambda>m. Inr m),
                          rembg_remove = (\<lambda>c s kw. Inl (Base_exception ''stop'')) \<rparr>"

definition sample_upload :: upload_file where
  "sample_upload = \<lparr> filename = Some ''test.png'',
                      content_type = Some ''image/png'',
                      file_bytes = [137, 80, 78, 71] \<rparr>"

definition sample_request :: bg_request where
  "sample_request = \<lparr> x_api_key = None,
                       file_part = sample_upload,
                       model = None,
                       alpha_matting = None,
                       alpha_matting_foreground_threshold = None,
                       alpha_matting_background_threshold = None,
                       alpha_matting_erode_size = None \<rparr>"

section \<open>Properties\<close>

lemma truthy_iff: "truthy x \<longleftrightarrow> \<not> header_missing x"
  by (cases x) (simp_all add: header_missing_def)

lemma truthy_configured: "truthy k \<longleftrightarrow> secret_configured k"
  by (cases k) (simp_all add: secret_configured_def)

text \<open>
  C1. The authenticator allows a request if and only if no secret is configured or the
  header value equals the configured secret, as strings (so the comparison is
  case-sensitive). With a secret configured, an absent or empty header is rejected with
  401 and the message that the header is required, and a present header that differs
  from the secret is rejected with 401 and the message that the key is invalid.
\<close>

theorem C1_verify_api_key:
  "(allowed (verify_api_key API_KEY x) \<longleftrightarrow> \<not> secret_configured API_KEY \<or> x = API_KEY)
   \<and> (secret_configured API_KEY \<and> header_missing x \<longrightarrow>
        verify_api_key API_KEY x = Inl (HTTPException 401 ''X-API-Key header is required''))
   \<and> (secret_configured API_KEY \<and> \<not> header_missing x \<and> x \<noteq> API_KEY \<longrightarrow>
        verify_api_key API_KEY x = Inl (HTTPException 401 ''Invalid API key''))"
  unfolding verify_api_key_def allowed_def
  by (auto simp: truthy_iff truthy_configured [symmetric])

theorem C1_verify_api_key_witness:
  "allowed (verify_api_key (Some ''s3cret'') (Some ''s3cret''))
   \<and> \<not> allowed (verify_api_key (Some ''s3cret'') (Some ''S3cret''))
   \<and> verify_api_key (Some ''s3cret'') (Some '''') =
        Inl (HTTPException 401 ''X-API-Key header is required'')
   \<and> verify_api_key (Some ''s3cret'') (Some ''S3cret'') =
        Inl (HTTPException 401 ''Invalid API key'')"
  using C1_verify_api_key [of "Some ''s3cret''" "Some ''s3cret''"]
        C1_verify_api_key [of "Some ''s3cret''" "Some ''S3cret''"]
        C1_verify_api_key [of "Some ''s3cret''" "Some ''''"]
  by (simp add: secret_configured_def header_missing_def allowed_def)

subsection \<open>The handler, case by case\<close>

lemma not_image_iff:
  "(if \<not> truthy (content_type f) then True else \<not> startswith (the (content_type f)) ''image/'')
     \<longleftrightarrow> \<not> declared_image f"
  by (cases "content_type f") (auto simp: declared_image_def startswith_def)

lemma remove_background_not_image:
  "\<not> declared_image f \<Longrightarrow>
     remove_background rb f m a fg bg er = (Inl (HTTPException 400 ''File must be an image''), [])"
  by (simp add: remove_background_def remove_background_try_def not_image_iff)

lemma remove_background_not_importable:
  "declared_image f \<Longrightarrow> \<not> importable rb \<Longrightarrow>
     remove_background rb f m a fg bg er =
       (Inl (HTTPException 500 ''rembg not installed. Please install with: pip install rembg''), [])"
  by (simp add: remove_background_def remove_background_try_def not_image_iff)

lemma except_clauses_Inr_iff: "except_clauses z = Inr r \<longleftrightarrow> z = Inr r"
  by (cases z rule: except_clauses.cases) auto

lemma remove_background_session_raises:
  "declared_image f \<Longrightarrow> importable rb \<Longrightarrow> rembg_new_session rb m = Inl e \<Longrightarrow>
     remove_background rb f m a fg bg er =
       (except_clauses (Inl e), [New_session_call m])"
  by (simp add: remove_background_def remove_background_try_def not_image_iff)

lemma remove_background_remove_raises:
  "declared_image f \<Longrightarrow> importable rb \<Longrightarrow> rembg_new_session rb m = Inr s \<Longrightarrow>
   kw = (if a then With_matting a fg bg er else Session_only) \<Longrightarrow>
   rembg_remove rb (file_bytes f) s kw = Inl e \<Longrightarrow>
     remove_background rb f m a fg bg er =
       (except_clauses (Inl e),
        [New_session_call m, Remove_call (file_bytes f) s kw])"
  by (simp add: remove_background_def remove_background_try_def not_image_iff)

lemma remove_background_success:
  "declared_image f \<Longrightarrow> importable rb \<Longrightarrow> rembg_new_session rb m = Inr s \<Longrightarrow>
   kw = (if a then With_matting a fg bg er else Session_only) \<Longrightarrow>
   rembg_remove rb (file_bytes f) s kw = Inr out \<Longrightarrow>
     remove_background rb f m a fg bg er =
       (Inr \<lparr> content = out, media_type = ''image/png'',
              headers =
                [(''Content-Disposition'',
                    ''attachment; filename=bg_removed_'' @ format_value (filename f)),
                 (''X-Original-Filename'', or_else (filename f) ''image''),
                 (''X-Model-Used'', m)] \<rparr>,
        [New_session_call m, Remove_call (file_bytes f) s kw])"
  by (simp add: remove_background_def remove_background_try_def not_image_iff)


subsection \<open>Successful calls\<close>

lemma post_bg_remove_success_cases:
  assumes "fst (post_bg_remove k rb req) = Inr r"
  obtains s out where
    "allowed (verify_api_key k (x_api_key req))"
    "declared_image (file_part req)" "importable rb"
    "rembg_new_session rb (bound_model req) = Inr s"
    "r = \<lparr> content = out, media_type = ''image/png'',
           headers =
             [(''Content-Disposition'',
                 ''attachment; filename=bg_removed_'' @ format_value (filename (file_part req))),
              (''X-Original-Filename'', or_else (filename (file_part req)) ''image''),
              (''X-Model-Used'', bound_model req)] \<rparr>"
proof -
  from assms have auth: "verify_api_key k (x_api_key req) = Inr True"
    by (auto simp: post_bg_remove_def verify_api_key_def split: sum.splits if_splits)
  let ?rb = "remove_background rb (file_part req) (bound_model req) (bound_alpha_matting req)
      (bound_foreground_threshold req) (bound_background_threshold req) (bound_erode_size req)"
  from assms auth have res: "fst ?rb = Inr r"
    by (simp add: post_bg_remove_def)
  have img: "declared_image (file_part req)"
    using res by (cases "declared_image (file_part req)") (simp_all add: remove_background_not_image)
  have imp: "importable rb"
    using res img remove_background_not_importable [of "file_part req" rb]
    by (cases "importable rb") auto
  obtain s where s: "rembg_new_session rb (bound_model req) = Inr s"
    using res img imp
    by (cases "rembg_new_session rb (bound_model req)")
       (simp_all add: remove_background_session_raises except_clauses_Inr_iff)
  define kw where "kw = (if bound_alpha_matting req
      then With_matting (bound_alpha_matting req) (bound_foreground_threshold req)
             (bound_background_threshold req) (bound_erode_size req)
      else Session_only)"
  obtain out where out: "rembg_remove rb (file_bytes (file_part req)) s kw = Inr out"
    using res
    by (cases "rembg_remove rb (file_bytes (file_part req)) s kw")
       (simp_all add: remove_background_remove_raises [OF img imp s kw_def]
          except_clauses_Inr_iff)
  from remove_background_success [OF img imp s kw_def out] res
  have "r = \<lparr> content = out, media_type = ''image/png'',
           headers =
             [(''Content-Disposition'',
                 ''attachment; filename=bg_removed_'' @ format_value (filename (file_part req))),
              (''X-Original-Filename'', or_else (filename (file_part req)) ''image''),
              (''X-Model-Used'', bound_model req)] \<rparr>"
    by simp
  with auth img imp s that show thesis
    by (simp add: allowed_def)
qed

text \<open>
  C6. Every successful call of \<open>POST /bg/remove\<close> answers with media type
  \<open>image/png\<close>, whatever content type the upload declared.
\<close>

theorem C6_media_type_png:
  "fst (post_bg_remove k rb req) = Inr r \<Longrightarrow> media_type r = ''image/png''"
  by (erule post_bg_remove_success_cases) simp

theorem C6_media_type_png_witness:
  "\<exists>r. fst (post_bg_remove None mock_rembg
            (sample_request\<lparr> file_part := sample_upload\<lparr> content_type := Some ''image/jpeg'' \<rparr> \<rparr>))
          = Inr r
       \<and> media_type r = ''image/png''"
proof -
  let ?req = "sample_request\<lparr> file_part := sample_upload\<lparr> content_type := Some ''image/jpeg'' \<rparr> \<rparr>"
  obtain r where r: "fst (post_bg_remove None mock_rembg ?req) = Inr r"
    by (simp add: post_bg_remove_def verify_api_key_def remove_background_def
        remove_background_try_def sample_request_def sample_upload_def mock_rembg_def
        startswith_def bound_model_def bound_alpha_matting_def)
  from C6_media_type_png [OF r] r show ?thesis by blast
qed

text \<open>
  C7. On every successful call of \<open>POST /bg/remove\<close> the header \<open>X-Model-Used\<close> is
  the model bound from the request: the request's \<open>model\<close> when it gives one, and
  \<open>u2net\<close> when it omits it.
\<close>

theorem C7_model_used_header:
  "fst (post_bg_remove k rb req) = Inr r \<Longrightarrow>
     map_of (headers r) ''X-Model-Used'' = Some (bound_model req)
     \<and> (model req = None \<longrightarrow> map_of (headers r) ''X-Model-Used'' = Some ''u2net'')
     \<and> (\<forall>m. model req = Some m \<longrightarrow> map_of (headers r) ''X-Model-Used'' = Some m)"
  by (erule post_bg_remove_success_cases) (simp add: bound_model_def)

theorem C7_model_used_header_witness:
  "\<exists>r r'. fst (post_bg_remove None mock_rembg sample_request) = Inr r
       \<and> map_of (headers r) ''X-Model-Used'' = Some ''u2net''
       \<and> fst (post_bg_remove None mock_rembg (sample_request\<lparr> model := Some ''silueta'' \<rparr>)) = Inr r'
       \<and> map_of (headers r') ''X-Model-Used'' = Some ''silueta''"
proof -
  obtain r where r: "fst (post_bg_remove None mock_rembg sample_request) = Inr r"
    by (simp add: post_bg_remove_def verify_api_key_def remove_background_def
        remove_background_try_def sample_request_def sample_upload_def mock_rembg_def
        startswith_def bound_model_def bound_alpha_matting_def)
  obtain r' where r':
    "fst (post_bg_remove None mock_rembg (sample_request\<lparr> model := Some ''silueta'' \<rparr>)) = Inr r'"
    by (simp add: post_bg_remove_def verify_api_key_def remove_background_def
        remove_background_try_def sample_request_def sample_upload_def mock_rembg_def
        startswith_def bound_model_def bound_alpha_matting_def)
  have "model sample_request = None" "model (sample_request\<lparr> model := Some ''silueta'' \<rparr>) = Some ''silueta''"
    by (simp_all add: sample_request_def)
  with C7_model_used_header [OF r] C7_model_used_header [OF r'] r r' show ?thesis
    by blast
qed


subsection \<open>Rejected requests\<close>

lemma post_bg_remove_denied:
  "verify_api_key k (x_api_key req) = Inl h \<Longrightarrow> post_bg_remove k rb req = (Inl h, [])"
  by (simp add: post_bg_remove_def)

lemma post_bg_remove_allowed:
  "allowed (verify_api_key k (x_api_key req)) \<Longrightarrow>
     post_bg_remove k rb req =
       remove_background rb (file_part req) (bound_model req) (bound_alpha_matting req)
         (bound_foreground_threshold req) (bound_background_threshold req)
         (bound_erode_size req)"
  by (simp add: post_bg_remove_def allowed_def)

lemma verify_api_key_cases:
  "allowed (verify_api_key k x)
   \<or> verify_api_key k x = Inl (HTTPException 401 ''X-API-Key header is required'')
   \<or> verify_api_key k x = Inl (HTTPException 401 ''Invalid API key'')"
  by (simp add: verify_api_key_def allowed_def)

text \<open>
  C5. An authenticated request to \<open>POST /bg/remove\<close> whose upload does not declare a
  content type starting with \<open>image/\<close> is answered 400 with detail
  \<open>File must be an image\<close>. Only the declared type decides: replacing the payload
  bytes by any others gives the same answer.
\<close>

theorem C5_file_must_be_image:
  assumes "allowed (verify_api_key k (x_api_key req))"
    and "\<not> declared_image (file_part req)"
  shows "fst (post_bg_remove k rb req) = Inl (HTTPException 400 ''File must be an image'')
         \<and> fst (post_bg_remove k rb
                   (req\<lparr> file_part := (file_part req)\<lparr> file_bytes := payload \<rparr> \<rparr>))
             = Inl (HTTPException 400 ''File must be an image'')"
proof -
  let ?req' = "req\<lparr> file_part := (file_part req)\<lparr> file_bytes := payload \<rparr> \<rparr>"
  have "allowed (verify_api_key k (x_api_key ?req'))" "\<not> declared_image (file_part ?req')"
    using assms by (simp_all add: declared_image_def)
  then have "fst (post_bg_remove k rb ?req') = Inl (HTTPException 400 ''File must be an image'')"
    by (simp add: post_bg_remove_allowed remove_background_not_image)
  moreover have "fst (post_bg_remove k rb req) = Inl (HTTPException 400 ''File must be an image'')"
    using assms by (simp add: post_bg_remove_allowed remove_background_not_image)
  ultimately show ?thesis by simp
qed

theorem C5_file_must_be_image_witness:
  "fst (post_bg_remove (Some ''s3cret'') mock_rembg
          (sample_request\<lparr> x_api_key := Some ''s3cret'',
             file_part := \<lparr> filename = Some ''test.txt'', content_type = Some ''text/plain'',
                            file_bytes = [137, 80, 78, 71] \<rparr> \<rparr>))
     = Inl (HTTPException 400 ''File must be an image'')"
proof -
  let ?req = "sample_request\<lparr> x_api_key := Some ''s3cret'',
             file_part := \<lparr> filename = Some ''test.txt'', content_type = Some ''text/plain'',
                            file_bytes = [137, 80, 78, 71] \<rparr> \<rparr>"
  have a: "allowed (verify_api_key (Some ''s3cret'') (x_api_key ?req))"
    by (simp add: allowed_def verify_api_key_def)
  have b: "\<not> declared_image (file_part ?req)"
    by (simp add: declared_image_def startswith_def)
  from C5_file_must_be_image [OF a b, where rb = mock_rembg and payload = "[]"]
  show ?thesis by simp
qed

text \<open>
  C10. A request to \<open>POST /bg/remove\<close> that fails authentication is answered 401, and
  one that passes it but fails the file-type check is answered 400; in both cases the
  trace of collaborator calls is empty: neither \<open>new_session\<close> nor \<open>remove\<close> was
  called.
\<close>

theorem C10_no_collaborator_call_on_rejection:
  "(\<not> allowed (verify_api_key k (x_api_key req)) \<longrightarrow>
      (\<exists>d. fst (post_bg_remove k rb req) = Inl (HTTPException 401 d))
      \<and> snd (post_bg_remove k rb req) = [])
   \<and> (allowed (verify_api_key k (x_api_key req)) \<and> \<not> declared_image (file_part req) \<longrightarrow>
      fst (post_bg_remove k rb req) = Inl (HTTPException 400 ''File must be an image'')
      \<and> snd (post_bg_remove k rb req) = [])"
proof (intro conjI impI)
  assume "\<not> allowed (verify_api_key k (x_api_key req))"
  with verify_api_key_cases [of k "x_api_key req"]
  obtain d where "verify_api_key k (x_api_key req) = Inl (HTTPException 401 d)"
    by blast
  then have "post_bg_remove k rb req = (Inl (HTTPException 401 d), [])"
    by (rule post_bg_remove_denied)
  then show "\<exists>d. fst (post_bg_remove k rb req) = Inl (HTTPException 401 d)"
    and "snd (post_bg_remove k rb req) = []"
    by simp_all
next
  assume "allowed (verify_api_key k (x_api_key req)) \<and> \<not> declared_image (file_part req)"
  then have "post_bg_remove k rb req = (Inl (HTTPException 400 ''File must be an image''), [])"
    by (simp add: post_bg_remove_allowed remove_background_not_image)
  then show "fst (post_bg_remove k rb req) = Inl (HTTPException 400 ''File must be an image'')"
    and "snd (post_bg_remove k rb req) = []"
    by simp_all
qed

theorem C10_no_collaborator_call_on_rejection_witness:
  "snd (post_bg_remove (Some ''s3cret'') mock_rembg sample_request) = []
   \<and> snd (post_bg_remove None mock_rembg
            (sample_request\<lparr> file_part := sample_upload\<lparr> content_type := Some ''text/plain'' \<rparr> \<rparr>))
       = []"
proof -
  let ?req = "sample_request\<lparr> file_part := sample_upload\<lparr> content_type := Some ''text/plain'' \<rparr> \<rparr>"
  have a: "\<not> allowed (verify_api_key (Some ''s3cret'') (x_api_key sample_request))"
    by (simp add: allowed_def verify_api_key_def sample_request_def)
  have b: "allowed (verify_api_key None (x_api_key ?req)) \<and> \<not> declared_image (file_part ?req)"
    by (simp add: allowed_def verify_api_key_def declared_image_def startswith_def
        sample_upload_def)
  from C10_no_collaborator_call_on_rejection [of "Some ''s3cret''" sample_request mock_rembg] a
       C10_no_collaborator_call_on_rejection [of None ?req mock_rembg] b
  show ?thesis by blast
qed

subsection \<open>The alias endpoint\<close>

text \<open>
  C8. On every input (API key configuration, collaborator, header, file and the five
  parameters) \<open>POST /bg/remove-advanced\<close> gives the same response, and makes the same
  collaborator calls, as \<open>POST /bg/remove\<close>.
\<close>

theorem C8_advanced_is_alias:
  "post_bg_remove_advanced k rb req = post_bg_remove k rb req"
  by (simp add: post_bg_remove_advanced_def post_bg_remove_def remove_background_advanced_def
      split: sum.splits)

subsection \<open>Alpha matting disabled\<close>

text \<open>
  C9. Two requests to \<open>POST /bg/remove\<close> that both have alpha matting off and agree on
  the header, the file and the model, whatever their thresholds and erode sizes, make
  the same collaborator calls with the same arguments and get the same response.
\<close>

theorem C9_thresholds_unobservable_without_matting:
  assumes "\<not> bound_alpha_matting r1" and "\<not> bound_alpha_matting r2"
    and "x_api_key r1 = x_api_key r2" and "file_part r1 = file_part r2"
    and "model r1 = model r2"
  shows "post_bg_remove k rb r1 = post_bg_remove k rb r2"
  using assms
  by (simp add: post_bg_remove_def remove_background_def remove_background_try_def
      bound_model_def split: sum.splits)

theorem C9_thresholds_unobservable_without_matting_witness:
  "post_bg_remove None mock_rembg
     (sample_request\<lparr> alpha_matting := Some False,
        alpha_matting_foreground_threshold := Some (- 5),
        alpha_matting_background_threshold := Some 300,
        alpha_matting_erode_size := Some 0 \<rparr>)
   = post_bg_remove None mock_rembg sample_request"
  by (rule C9_thresholds_unobservable_without_matting)
     (simp_all add: bound_alpha_matting_def sample_request_def)


subsection \<open>Collaborator failures\<close>

lemma remove_background_outcomes:
  fixes rb :: "'s rembg"
  defines "kwf a fg bg er \<equiv> (if a then With_matting a fg bg er else Session_only)"
  shows "remove_background rb f m a fg bg er =
     (if \<not> declared_image f then (Inl (HTTPException 400 ''File must be an image''), [])
      else if \<not> importable rb
      then (Inl (HTTPException 500
              ''rembg not installed. Please install with: pip install rembg''), [])
      else case rembg_new_session rb m of
        Inl e \<Rightarrow> (except_clauses (Inl e), [New_session_call m])
      | Inr s \<Rightarrow>
          (case rembg_remove rb (file_bytes f) s (kwf a fg bg er) of
             Inl e \<Rightarrow> (except_clauses (Inl e),
                       [New_session_call m, Remove_call (file_bytes f) s (kwf a fg bg er)])
           | Inr out \<Rightarrow>
               (Inr \<lparr> content = out, media_type = ''image/png'',
                      headers =
                        [(''Content-Disposition'',
                            ''attachment; filename=bg_removed_'' @ format_value (filename f)),
                         (''X-Original-Filename'', or_else (filename f) ''image''),
                         (''X-Model-Used'', m)] \<rparr>,
                [New_session_call m, Remove_call (file_bytes f) s (kwf a fg bg er)])))"
  unfolding kwf_def
  by (simp add: remove_background_def remove_background_try_def not_image_iff Let_def
      split: sum.splits)

lemma post_bg_remove_raised:
  assumes "raised_in rb (snd (post_bg_remove k rb req)) x"
  shows "fst (post_bg_remove k rb req) = except_clauses (Inl x)"
proof (cases "allowed (verify_api_key k (x_api_key req))")
  case False
  with verify_api_key_cases [of k "x_api_key req"]
  obtain h where "verify_api_key k (x_api_key req) = Inl h"
    by blast
  then have "snd (post_bg_remove k rb req) = []"
    by (simp add: post_bg_remove_denied)
  with assms show ?thesis by simp
next
  case True
  show ?thesis
    using assms unfolding post_bg_remove_allowed [OF True] remove_background_outcomes
    by (auto split: if_splits sum.splits)
qed

lemma post_bg_remove_no_retry:
  "count_new_session (snd (post_bg_remove k rb req)) \<le> 1
   \<and> count_remove (snd (post_bg_remove k rb req)) \<le> 1"
proof (cases "allowed (verify_api_key k (x_api_key req))")
  case False
  with verify_api_key_cases [of k "x_api_key req"]
  obtain h where "verify_api_key k (x_api_key req) = Inl h"
    by blast
  then have "snd (post_bg_remove k rb req) = []"
    by (simp add: post_bg_remove_denied)
  then show ?thesis by simp
next
  case True
  show ?thesis
    unfolding post_bg_remove_allowed [OF True] remove_background_outcomes
    by (simp split: sum.splits)
qed

text \<open>
  C4, as stated: whenever a collaborator call made for a request to \<open>POST /bg/remove\<close>
  raises an exception, the response is a 500 whose detail starts with
  \<open>Error processing image\<close>. It fails when \<open>remove\<close> raises
  \<open>HTTPException(418, "teapot")\<close>: the clause \<open>except HTTPException: raise\<close> passes it
  on and the answer is 418 with detail \<open>teapot\<close>. It fails too when \<open>remove\<close> raises
  \<open>KeyboardInterrupt("stop")\<close>, which \<open>except Exception\<close> does not catch: the
  exception leaves the handler and no 500 is built.
\<close>

theorem C4_http_exception_passes_through:
  "raised_in teapot_rembg (snd (post_bg_remove None teapot_rembg sample_request))
     (HTTPException 418 ''teapot'')
   \<and> fst (post_bg_remove None teapot_rembg sample_request) = Inl (HTTPException 418 ''teapot'')
   \<and> \<not> answered_500_error_processing (fst (post_bg_remove None teapot_rembg sample_request))
   \<and> raised_in interrupted_rembg (snd (post_bg_remove None interrupted_rembg sample_request))
       (Base_exception ''stop'')
   \<and> fst (post_bg_remove None interrupted_rembg sample_request) = Inl (Base_exception ''stop'')
   \<and> \<not> answered_500_error_processing
         (fst (post_bg_remove None interrupted_rembg sample_request))"
  by (simp add: post_bg_remove_def verify_api_key_def remove_background_def
      remove_background_try_def sample_request_def sample_upload_def teapot_rembg_def
      interrupted_rembg_def startswith_def bound_model_def bound_alpha_matting_def)

text \<open>
  C4, amended. When a collaborator call made for a request to \<open>POST /bg/remove\<close> raises
  an exception that is an \<open>Exception\<close> but not an \<open>HTTPException\<close>, with text \<open>e\<close>,
  the response is a 500 whose detail is \<open>Error processing image\<close>, a colon and a space,
  then \<open>e\<close>. An \<open>HTTPException\<close> raised by the collaborator is answered with its own
  status and detail, and an exception that is not an \<open>Exception\<close> leaves the handler
  as it is. In every case the collaborator is not tried again: \<open>new_session\<close> and
  \<open>remove\<close> are each called at most once.
\<close>

theorem C4_collaborator_exception_by_class:
  "(raised_in rb (snd (post_bg_remove k rb req)) (Other_exception e) \<longrightarrow>
      fst (post_bg_remove k rb req)
        = Inl (HTTPException 500 (''Error processing image'' @ '': '' @ e))
      \<and> answered_500_error_processing (fst (post_bg_remove k rb req)))
   \<and> (raised_in rb (snd (post_bg_remove k rb req)) (HTTPException c d) \<longrightarrow>
      fst (post_bg_remove k rb req) = Inl (HTTPException c d))
   \<and> (raised_in rb (snd (post_bg_remove k rb req)) (Base_exception b) \<longrightarrow>
      fst (post_bg_remove k rb req) = Inl (Base_exception b))
   \<and> count_new_session (snd (post_bg_remove k rb req)) \<le> 1
   \<and> count_remove (snd (post_bg_remove k rb req)) \<le> 1"
  using post_bg_remove_no_retry [of k rb req]
  by (auto dest!: post_bg_remove_raised simp: startswith_def)

theorem C4_collaborator_exception_by_class_witness:
  "raised_in failing_rembg (snd (post_bg_remove None failing_rembg sample_request))
     (Other_exception ''Processing failed'')
   \<and> fst (post_bg_remove None failing_rembg sample_request)
       = Inl (HTTPException 500 ''Error processing image: Processing failed'')
   \<and> count_new_session (snd (post_bg_remove None failing_rembg sample_request)) \<le> 1
   \<and> count_remove (snd (post_bg_remove None failing_rembg sample_request)) \<le> 1"
proof -
  have t: "snd (post_bg_remove None failing_rembg sample_request)
             = [New_session_call ''u2net'',
                Remove_call [137, 80, 78, 71] ''u2net'' Session_only]"
    by (simp add: post_bg_remove_def verify_api_key_def remove_background_def
        remove_background_try_def sample_request_def sample_upload_def failing_rembg_def
        startswith_def bound_model_def bound_alpha_matting_def)
  have h: "raised_in failing_rembg (snd (post_bg_remove None failing_rembg sample_request))
             (Other_exception ''Processing failed'')"
    unfolding t by (simp add: failing_rembg_def)
  from C4_collaborator_exception_by_class
         [of failing_rembg None sample_request "''Processing failed''"] h
  show ?thesis by simp
qed

subsection \<open>Numeric parameters\<close>

text \<open>
  C3, as stated: on every request the three numeric parameters reach the collaborator
  unchanged. It fails on a request that leaves alpha matting off (the default) and gives
  the values \<open>-5\<close>, \<open>300\<close> and \<open>-1\<close>: the only \<open>remove\<close> call carries the
  session alone.
\<close>

theorem C3_numeric_not_forwarded_without_matting:
  "\<not> numeric_forwarded
       (snd (post_bg_remove None mock_rembg
               (sample_request\<lparr> alpha_matting_foreground_threshold := Some (- 5),
                  alpha_matting_background_threshold := Some 300,
                  alpha_matting_erode_size := Some (- 1) \<rparr>)))
       (- 5) 300 (- 1)
   \<and> snd (post_bg_remove None mock_rembg
             (sample_request\<lparr> alpha_matting_foreground_threshold := Some (- 5),
                alpha_matting_background_threshold := Some 300,
                alpha_matting_erode_size := Some (- 1) \<rparr>))
       = [New_session_call ''u2net'',
          Remove_call [137, 80, 78, 71] ''u2net'' Session_only]"
  by (simp add: post_bg_remove_def verify_api_key_def remove_background_def
      remove_background_try_def sample_request_def sample_upload_def mock_rembg_def
      startswith_def bound_model_def bound_alpha_matting_def)

text \<open>
  C3, amended. On a request to \<open>POST /bg/remove\<close> that passes authentication and the
  file-type check, with rembg importable and the session created: when alpha matting is
  on, the one \<open>remove\<close> call carries the foreground threshold, the background threshold
  and the erode size exactly as the request gives them, whatever integers they are
  (negative and out-of-range ones included), and the defaults 240, 10 and 10 for those
  the request omits; when alpha matting is off, the call carries none of them.
\<close>

theorem C3_numeric_forwarded_with_matting:
  assumes "allowed (verify_api_key k (x_api_key req))"
    and "declared_image (file_part req)" and "importable rb"
    and "rembg_new_session rb (bound_model req) = Inr s"
  shows "(bound_alpha_matting req \<longrightarrow>
            snd (post_bg_remove k rb req) =
              [New_session_call (bound_model req),
               Remove_call (file_bytes (file_part req)) s
                 (With_matting True
                    (case alpha_matting_foreground_threshold req of None \<Rightarrow> 240 | Some n \<Rightarrow> n)
                    (case alpha_matting_background_threshold req of None \<Rightarrow> 10 | Some n \<Rightarrow> n)
                    (case alpha_matting_erode_size req of None \<Rightarrow> 10 | Some n \<Rightarrow> n))])
         \<and> (\<not> bound_alpha_matting req \<longrightarrow>
            snd (post_bg_remove k rb req) =
              [New_session_call (bound_model req),
               Remove_call (file_bytes (file_part req)) s Session_only])"
  unfolding post_bg_remove_allowed [OF assms(1)] remove_background_outcomes
  using assms(2-4)
  by (simp add: bound_foreground_threshold_def bound_background_threshold_def
      bound_erode_size_def split: sum.splits)

theorem C3_numeric_forwarded_with_matting_witness:
  "snd (post_bg_remove None mock_rembg
          (sample_request\<lparr> alpha_matting := Some True,
             alpha_matting_foreground_threshold := Some (- 5),
             alpha_matting_background_threshold := Some 300,
             alpha_matting_erode_size := Some (- 1) \<rparr>))
     = [New_session_call ''u2net'',
        Remove_call [137, 80, 78, 71] ''u2net'' (With_matting True (- 5) 300 (- 1))]"
proof -
  let ?req = "sample_request\<lparr> alpha_matting := Some True,
             alpha_matting_foreground_threshold := Some (- 5),
             alpha_matting_background_threshold := Some 300,
             alpha_matting_erode_size := Some (- 1) \<rparr>"
  have a: "allowed (verify_api_key None (x_api_key ?req))"
    by (simp add: allowed_def verify_api_key_def)
  have b: "declared_image (file_part ?req)"
    by (simp add: declared_image_def startswith_def sample_request_def sample_upload_def)
  have c: "importable mock_rembg"
    by (simp add: mock_rembg_def)
  have d: "rembg_new_session mock_rembg (bound_model ?req) = Inr ''u2net''"
    by (simp add: mock_rembg_def bound_model_def sample_request_def)
  have e: "bound_alpha_matting ?req"
    by (simp add: bound_alpha_matting_def)
  from C3_numeric_forwarded_with_matting [OF a b c d] e show ?thesis
    by (simp add: bound_model_def sample_request_def sample_upload_def)
qed

subsection \<open>File name headers\<close>

lemma original_filename_header:
  "fst (post_bg_remove k rb req) = Inr r \<Longrightarrow>
     map_of (headers r) ''X-Original-Filename'' =
       Some (case filename (file_part req) of None \<Rightarrow> ''image''
             | Some n \<Rightarrow> if n = [] then ''image'' else n)"
  by (erule post_bg_remove_success_cases) (simp split: option.splits)

lemma content_disposition_with_filename:
  "fst (post_bg_remove k rb req) = Inr r \<Longrightarrow> filename (file_part req) = Some n \<Longrightarrow>
     map_of (headers r) ''Content-Disposition'' = Some (''attachment; filename=bg_removed_'' @ n)"
  by (erule post_bg_remove_success_cases) simp

text \<open>
  C2. The claim asks for the file name \<open>bg_removed_image\<close> in \<open>Content-Disposition\<close>
  when the upload has no file name. The handler formats \<open>file.filename\<close> into that
  header without the fallback \<open>or "image"\<close> that it applies one line below for
  \<open>X-Original-Filename\<close>: an upload whose file name is \<open>None\<close> gives
  \<open>bg_removed_None\<close> and one whose file name is empty gives \<open>bg_removed_\<close>, while
  \<open>X-Original-Filename\<close> is \<open>image\<close> for both.
\<close>

theorem C2_content_disposition_lacks_fallback:
  "response_header
     (fst (post_bg_remove None mock_rembg
             (sample_request\<lparr> file_part := sample_upload\<lparr> filename := None \<rparr> \<rparr>)))
     ''Content-Disposition'' = Some ''attachment; filename=bg_removed_None''
   \<and> response_header
     (fst (post_bg_remove None mock_rembg
             (sample_request\<lparr> file_part := sample_upload\<lparr> filename := None \<rparr> \<rparr>)))
     ''X-Original-Filename'' = Some ''image''
   \<and> response_header
     (fst (post_bg_remove None mock_rembg
             (sample_request\<lparr> file_part := sample_upload\<lparr> filename := Some '''' \<rparr> \<rparr>)))
     ''Content-Disposition'' = Some ''attachment; filename=bg_removed_''
   \<and> response_header
     (fst (post_bg_remove None mock_rembg
             (sample_request\<lparr> file_part := sample_upload\<lparr> filename := Some '''' \<rparr> \<rparr>)))
     ''X-Original-Filename'' = Some ''image''"
  by (simp add: post_bg_remove_def verify_api_key_def remove_background_def
      remove_background_try_def sample_request_def sample_upload_def mock_rembg_def
      startswith_def bound_model_def bound_alpha_matting_def response_header_def)

end
